theory Spec2Isabelle
  imports Complex_Main "HOL-Library.Multiset"
begin

section \<open>JavaScript numbers\<close>

text \<open>
  A number of the language is an IEEE 754 double: a finite value, one of the two
  infinities, or NaN. A finite double is a rational number, and the model keeps it as
  that rational; the two zeros are one value here, since the operations the dashboard
  uses (\<open>+\<close> from the accumulator \<open>0\<close>, \<open>||\<close>, \<open>===\<close>, conversion to a string) do
  not tell them apart.
\<close>

datatype number = Finite rat | PosInfinity | NegInfinity | NaN

datatype error = TypeError

text \<open>Powers with an integer exponent, by repeated squaring.\<close>

function ipow :: "rat \<Rightarrow> int \<Rightarrow> rat" where
  "ipow b n =
     (if n \<le> 0 then 1
      else if even n then (let h = ipow b (n div 2) in h * h)
      else b * ipow b (n - 1))"
  by pat_completeness auto
termination
  by (relation "measure (\<lambda>(b, n). nat n)") auto

declare ipow.simps [simp del]

definition power_of :: "rat \<Rightarrow> int \<Rightarrow> rat" where
  "power_of b e = (if 0 \<le> e then ipow b e else 1 / ipow b (- e))"

text \<open>
  The number of digits of a positive integer in base \<open>b\<close>, and from it the integer
  \<open>e\<close> with \<open>b^e \<le> x < b^(e+1)\<close> for a positive rational \<open>x\<close>: the quotient of a
  numerator of \<open>m\<close> digits by a denominator of \<open>n\<close> digits lies strictly between
  \<open>b^(m-n-1)\<close> and \<open>b^(m-n+1)\<close>.
\<close>

function digit_count :: "int \<Rightarrow> int \<Rightarrow> int" where
  "digit_count b n = (if n \<le> 0 \<or> b \<le> 1 then 0 else 1 + digit_count b (n div b))"
  by pat_completeness auto
termination
  by (relation "measure (\<lambda>(b, n). nat n)") (auto simp: int_div_less_self)

declare digit_count.simps [simp del]

definition floor_log :: "int \<Rightarrow> rat \<Rightarrow> int" where
  "floor_log b x =
     (case quotient_of x of (p, q) \<Rightarrow>
        let e = digit_count b p - digit_count b q
        in if power_of (of_int b) e \<le> x then e else e - 1)"

text \<open>
  Rounding of an exact result to the nearest double, ties to the even significand. A
  double has 53 significant bits and a binary exponent of at least \<open>-1022\<close>, below
  which the spacing stays \<open>2^-1074\<close>; a result that rounds to \<open>2^1024\<close> or more is an
  infinity. \<open>is_double\<close> holds of the rationals that are doubles.
\<close>

definition round_half_even :: "rat \<Rightarrow> int" where
  "round_half_even x =
     (let n = \<lfloor>x\<rfloor>; r = x - of_int n
      in if r < 1 / 2 then n else if 1 / 2 < r then n + 1 else if even n then n else n + 1)"

definition round_double :: "rat \<Rightarrow> number" where
  "round_double x =
     (if x = 0 then Finite 0
      else
        let a = \<bar>x\<bar>;
            e = max (floor_log 2 a) (- 1022);
            quantum = power_of 2 (e - 52);
            r = of_int (round_half_even (a / quantum)) * quantum
        in if power_of 2 1024 \<le> r then (if x < 0 then NegInfinity else PosInfinity)
           else Finite (if x < 0 then - r else r))"

definition is_double :: "rat \<Rightarrow> bool" where
  "is_double x = (round_double x = Finite x)"

text \<open>The operator \<open>+\<close> on two numbers.\<close>

fun number_add :: "number \<Rightarrow> number \<Rightarrow> number" where
  "number_add NaN y = NaN"
| "number_add x NaN = NaN"
| "number_add PosInfinity NegInfinity = NaN"
| "number_add NegInfinity PosInfinity = NaN"
| "number_add PosInfinity y = PosInfinity"
| "number_add x PosInfinity = PosInfinity"
| "number_add NegInfinity y = NegInfinity"
| "number_add x NegInfinity = NegInfinity"
| "number_add (Finite x) (Finite y) = round_double (x + y)"

text \<open>
  Number::toString. The decimal digits of a whole number that is not negative come
  first. For a positive double \<open>x\<close> the digits are those of the integer \<open>s\<close> of the
  fewest digits \<open>k\<close> for which \<open>s * 10^(n-k)\<close> rounds to \<open>x\<close>, the closest to \<open>x\<close> among
  them and the even one of two equally close; with \<open>10^(n0-1) \<le> x < 10^n0\<close> only
  \<open>n0\<close> and \<open>n0 + 1\<close> can be \<open>n\<close>, and only the two integers around \<open>x / 10^(n-k)\<close>
  can be \<open>s\<close>. Seventeen digits determine every double; for a rational that is not a
  double, which is no value of the language, the search ends with its seventeen
  leading digits. The digits are written plainly for \<open>-6 < n \<le> 21\<close> and with an
  exponent otherwise.
\<close>

definition digit_char :: "int \<Rightarrow> char" where
  "digit_char d = ''0123456789'' ! nat d"

function string_of_nat :: "int \<Rightarrow> string" where
  "string_of_nat n =
     (if n < 10 then [digit_char n] else string_of_nat (n div 10) @ [digit_char (n mod 10)])"
  by pat_completeness auto
termination
  by (relation "measure nat") auto

declare string_of_nat.simps [simp del]

definition decimal_candidates :: "rat \<Rightarrow> int \<Rightarrow> int \<Rightarrow> (int \<times> int) list" where
  "decimal_candidates x n0 k =
     [(n, s). n \<leftarrow> [n0, n0 + 1],
              s \<leftarrow> [\<lfloor>x / power_of 10 (n - k)\<rfloor>, \<lfloor>x / power_of 10 (n - k)\<rfloor> + 1],
              power_of 10 (k - 1) \<le> of_int s \<and> of_int s < power_of 10 k \<and>
              round_double (of_int s * power_of 10 (n - k)) = Finite x]"

definition closer :: "rat \<Rightarrow> int \<Rightarrow> int \<times> int \<Rightarrow> int \<times> int \<Rightarrow> int \<times> int" where
  "closer x k c d =
     (let dc = \<bar>of_int (snd c) * power_of 10 (fst c - k) - x\<bar>;
          dd = \<bar>of_int (snd d) * power_of 10 (fst d - k) - x\<bar>
      in if dd < dc \<or> (dd = dc \<and> even (snd d) \<and> odd (snd c)) then d else c)"

fun shortest_decimal :: "rat \<Rightarrow> int \<Rightarrow> int list \<Rightarrow> int \<times> int \<times> int" where
  "shortest_decimal x n0 [] = (17, n0, \<lfloor>x / power_of 10 (n0 - 17)\<rfloor>)"
| "shortest_decimal x n0 (k # ks) =
     (case decimal_candidates x n0 k of
        [] \<Rightarrow> shortest_decimal x n0 ks
      | c # cs \<Rightarrow> (case foldl (closer x k) c cs of (n, s) \<Rightarrow> (k, n, s)))"

definition format_decimal :: "int \<times> int \<times> int \<Rightarrow> string" where
  "format_decimal t =
     (case t of (k, n, s) \<Rightarrow>
        let digits = string_of_nat s in
        if k \<le> n \<and> n \<le> 21 then digits @ replicate (nat (n - k)) CHR ''0''
        else if 0 < n \<and> n \<le> 21 then take (nat n) digits @ ''.'' @ drop (nat n) digits
        else if - 6 < n \<and> n \<le> 0 then ''0.'' @ replicate (nat (- n)) CHR ''0'' @ digits
        else (if k = 1 then digits else take 1 digits @ ''.'' @ drop 1 digits)
             @ ''e'' @ (if n - 1 < 0 then ''-'' else ''+'') @ string_of_nat \<bar>n - 1\<bar>)"

definition positive_to_string :: "rat \<Rightarrow> string" where
  "positive_to_string x =
     format_decimal
       (shortest_decimal x (floor_log 10 x + 1)
          [1, 2, 3, 4, 5, 6, 7, 8, 9, 10, 11, 12, 13, 14, 15, 16, 17])"

fun Number_toString :: "number \<Rightarrow> string" where
  "Number_toString NaN = ''NaN''"
| "Number_toString PosInfinity = ''Infinity''"
| "Number_toString NegInfinity = ''-Infinity''"
| "Number_toString (Finite x) =
     (if x = 0 then ''0''
      else if x < 0 then ''-'' @ positive_to_string (- x)
      else positive_to_string x)"

section \<open>JavaScript values\<close>

text \<open>
  The dashboard reads rows of a spreadsheet as plain JavaScript objects and never checks
  the type of a cell, so the model keeps the dynamic typing. A value is a primitive, or
  \<open>JObject name\<close>: the member \<open>name\<close> of \<open>Object.prototype\<close>, which a read of that
  name finds in an object that has no own property of the name. Each such member is a
  built-in function, except \<open>__proto__\<close>, whose read gives the prototype object
  itself. \<open>JNum q\<close> is the finite number \<open>q\<close>.
\<close>

datatype jsval =
  JUndefined | JNull | JBool bool | JNumber number | JStr string | JObject string

abbreviation JNum :: "rat \<Rightarrow> jsval" where
  "JNum q \<equiv> JNumber (Finite q)"

definition object_prototype_keys :: "string list" where
  "object_prototype_keys =
     [''constructor'', ''__defineGetter__'', ''__defineSetter__'', ''hasOwnProperty'',
      ''__lookupGetter__'', ''__lookupSetter__'', ''isPrototypeOf'',
      ''propertyIsEnumerable'', ''toString'', ''valueOf'', ''__proto__'',
      ''toLocaleString'']"

text \<open>
  The string of a member of \<open>Object.prototype\<close>. The prototype object prints as
  \<open>[object Object]\<close>. The text of a built-in function is left to the engine within the
  form \<open>function name() { [native code] }\<close>, taken here with the spacing of V8 and
  JavaScriptCore; the member \<open>constructor\<close> is the function \<open>Object\<close>.
\<close>

definition object_to_string :: "string \<Rightarrow> string" where
  "object_to_string name =
     (if name = ''__proto__'' then ''[object Object]''
      else ''function '' @ (if name = ''constructor'' then ''Object'' else name)
           @ ''() { [native code] }'')"

text \<open>The abstract operations ToString, ToBoolean, ToPrimitive and ToNumber.\<close>

fun ToString :: "jsval \<Rightarrow> string" where
  "ToString JUndefined = ''undefined''"
| "ToString JNull = ''null''"
| "ToString (JBool b) = (if b then ''true'' else ''false'')"
| "ToString (JNumber n) = Number_toString n"
| "ToString (JStr s) = s"
| "ToString (JObject name) = object_to_string name"

fun ToBoolean :: "jsval \<Rightarrow> bool" where
  "ToBoolean JUndefined = False"
| "ToBoolean JNull = False"
| "ToBoolean (JBool b) = b"
| "ToBoolean (JNumber n) = (n \<noteq> Finite 0 \<and> n \<noteq> NaN)"
| "ToBoolean (JStr s) = (s \<noteq> [])"
| "ToBoolean (JObject name) = True"

fun ToPrimitive :: "jsval \<Rightarrow> jsval" where
  "ToPrimitive (JObject name) = JStr (object_to_string name)"
| "ToPrimitive v = v"

text \<open>
  ToNumber. The addition below calls it on primitive operands that are not strings only
  (a string operand makes \<open>+\<close> a concatenation), so the string case, which would parse
  a numeral, is never evaluated; it is given the value of a string that is not a
  numeral, which is also the number of every member of \<open>Object.prototype\<close>.
\<close>

fun ToNumber :: "jsval \<Rightarrow> number" where
  "ToNumber JUndefined = NaN"
| "ToNumber JNull = Finite 0"
| "ToNumber (JBool b) = Finite (if b then 1 else 0)"
| "ToNumber (JNumber n) = n"
| "ToNumber (JStr s) = NaN"
| "ToNumber (JObject name) = NaN"

text \<open>The operator \<open>a + b\<close>: on the primitives of the operands, then on the values.\<close>

fun add_primitives :: "jsval \<Rightarrow> jsval \<Rightarrow> jsval" where
  "add_primitives (JStr s) b = JStr (s @ ToString b)"
| "add_primitives a (JStr t) = JStr (ToString a @ t)"
| "add_primitives a b = JNumber (number_add (ToNumber a) (ToNumber b))"

definition js_add :: "jsval \<Rightarrow> jsval \<Rightarrow> jsval" where
  "js_add a b = add_primitives (ToPrimitive a) (ToPrimitive b)"

text \<open>The operator \<open>a || b\<close>.\<close>

definition js_or :: "jsval \<Rightarrow> jsval \<Rightarrow> jsval" where
  "js_or a b = (if ToBoolean a then a else b)"

text \<open>The operator \<open>a === b\<close>: NaN is not equal to itself.\<close>

definition strict_eq :: "jsval \<Rightarrow> jsval \<Rightarrow> bool" where
  "strict_eq a b = (a = b \<and> a \<noteq> JNumber NaN)"

section \<open>Objects\<close>

text \<open>
  A row of the sheet, and a row of an aggregation, is a plain object: its own properties
  in creation order, with \<open>Object.prototype\<close> behind them. \<open>get_prop\<close> is the read
  \<open>item[field]\<close>: the own property of that name, else the member of the prototype of
  that name, else \<open>undefined\<close>. \<open>set_prop\<close> defines a property: a new one comes last,
  an existing one keeps its place.
\<close>

type_synonym jsobj = "(string \<times> jsval) list"

definition get_prop :: "jsobj \<Rightarrow> string \<Rightarrow> jsval" where
  "get_prop obj field =
     (case map_of obj field of
        Some v \<Rightarrow> v
      | None \<Rightarrow> if field \<in> set object_prototype_keys then JObject field else JUndefined)"

fun set_prop :: "('k \<times> 'v) list \<Rightarrow> 'k \<Rightarrow> 'v \<Rightarrow> ('k \<times> 'v) list" where
  "set_prop [] k v = [(k, v)]"
| "set_prop ((k', v') # ps) k v = (if k' = k then (k, v) # ps else (k', v') # set_prop ps k v)"

text \<open>
  The object \<open>groups\<close> of groupDataByField starts as the literal \<open>{}\<close>. A read
  \<open>groups[key]\<close> of a name that is not an own property finds the member of the
  prototype, when there is one; it is truthy and has no method \<open>push\<close>.

  An array index is the canonical decimal numeral of an integer from 0 to \<open>2^32 - 2\<close>.
  The own property keys of an object are enumerated with the array indices first, in
  ascending numeric order, and then the other strings in creation order; that is the
  order of \<open>Object.entries\<close>.
\<close>

definition is_digit :: "char \<Rightarrow> bool" where
  "is_digit c = (c \<in> set ''0123456789'')"

definition digit_value :: "char \<Rightarrow> int" where
  "digit_value c = of_char c - 48"

fun nat_of_digits :: "int \<Rightarrow> string \<Rightarrow> int option" where
  "nat_of_digits acc [] = Some acc"
| "nat_of_digits acc (c # cs) =
     (if is_digit c then nat_of_digits (10 * acc + digit_value c) cs else None)"

definition array_index :: "string \<Rightarrow> int option" where
  "array_index s =
     (if s = [] then None
      else (case nat_of_digits 0 s of
              None \<Rightarrow> None
            | Some n \<Rightarrow> if string_of_nat n = s \<and> n < 4294967295 then Some n else None))"

definition index_value :: "string \<Rightarrow> int" where
  "index_value k = (case array_index k of None \<Rightarrow> 0 | Some n \<Rightarrow> n)"

definition Object_entries :: "(string \<times> 'v) list \<Rightarrow> (string \<times> 'v) list" where
  "Object_entries obj =
     sort_key (\<lambda>(k, v). index_value k) (filter (\<lambda>(k, v). array_index k \<noteq> None) obj)
     @ filter (\<lambda>(k, v). array_index k = None) obj"

section \<open>utils/dataLoader.js\<close>

text \<open>
  \<open>data\<close> is \<open>None\<close> when the argument is absent (\<open>undefined\<close> or \<open>null\<close>) and
  \<open>Some xs\<close> when it is an array; \<open>!data || !data.length\<close> holds for an absent and for
  an empty array.
\<close>

definition calculateTotalAUM :: "jsobj list option \<Rightarrow> jsval" where
  "calculateTotalAUM data =
     (case data of
        None \<Rightarrow> JNum 0
      | Some xs \<Rightarrow>
          if xs = [] then JNum 0
          else foldl (\<lambda>sum item. js_add sum (js_or (get_prop item ''MV'') (JNum 0))) (JNum 0) xs)"

text \<open>
  One step of the reduction in groupDataByField. The key is converted to a property
  name. When \<open>groups\<close> has the key as an own property the item is pushed on its array.
  Otherwise the read goes to the prototype: an inherited member is truthy, so no array
  is created, and the call of its missing \<open>push\<close> raises a TypeError; with no inherited
  member the read is \<open>undefined\<close>, a new array is created under the key, and the item
  is pushed.
\<close>

type_synonym groups = "(string \<times> jsobj list) list"

definition group_step :: "string \<Rightarrow> groups \<Rightarrow> jsobj \<Rightarrow> error + groups" where
  "group_step field groups item =
     (let key = ToString (get_prop item field) in
      case map_of groups key of
        Some items \<Rightarrow> Inr (set_prop groups key (items @ [item]))
      | None \<Rightarrow>
          if key \<in> set object_prototype_keys then Inl TypeError
          else Inr (groups @ [(key, [item])]))"

fun group_reduce :: "string \<Rightarrow> groups \<Rightarrow> jsobj list \<Rightarrow> error + groups" where
  "group_reduce field groups [] = Inr groups"
| "group_reduce field groups (item # rest) =
     (case group_step field groups item of
        Inl e \<Rightarrow> Inl e
      | Inr groups' \<Rightarrow> group_reduce field groups' rest)"

definition groupDataByField :: "jsobj list option \<Rightarrow> string \<Rightarrow> error + groups" where
  "groupDataByField data field =
     (case data of
        None \<Rightarrow> Inr []
      | Some xs \<Rightarrow> if xs = [] then Inr [] else group_reduce field [] xs)"

text \<open>
  The sum of one group, \<open>items.reduce((sum, item) => sum + (item[valueField] || 0), 0)\<close>,
  and the object literal built for it: the three properties are defined in the order
  written, so a later one overwrites an earlier one of the same name.
\<close>

definition sum_items :: "string \<Rightarrow> jsobj list \<Rightarrow> jsval" where
  "sum_items valueField items =
     foldl (\<lambda>sum item. js_add sum (js_or (get_prop item valueField) (JNum 0))) (JNum 0) items"

definition aggregate_row :: "string \<Rightarrow> string \<Rightarrow> string \<times> jsobj list \<Rightarrow> jsobj" where
  "aggregate_row groupField valueField entry =
     (case entry of (key, items) \<Rightarrow>
        set_prop
          (set_prop (set_prop [] groupField (JStr key)) valueField (sum_items valueField items))
          ''count'' (JNum (of_nat (length items))))"

definition aggregateByField :: "jsobj list option \<Rightarrow> string \<Rightarrow> string \<Rightarrow> error + jsobj list" where
  "aggregateByField data groupField valueField =
     (case data of
        None \<Rightarrow> Inr []
      | Some xs \<Rightarrow>
          if xs = [] then Inr []
          else (case groupDataByField data groupField of
                  Inl e \<Rightarrow> Inl e
                | Inr groups \<Rightarrow>
                    Inr (map (aggregate_row groupField valueField) (Object_entries groups))))"

section \<open>App.js and the click handler of the pie chart\<close>

text \<open>
  The state of the App component that the drill-down uses: the loaded rows and the two
  selections, each \<open>null\<close> or a label. The handler of a chart passes \<open>null\<close> to
  \<open>onItemSelect\<close> when the clicked label is the selected one, and the label otherwise.
\<close>

record app_state =
  fundData :: "jsobj list"
  selectedFundType :: jsval
  selectedSubFund :: jsval

definition handleClick :: "jsval \<Rightarrow> jsval \<Rightarrow> jsval" where
  "handleClick selectedItem clickedItem =
     (if strict_eq clickedItem selectedItem then JNull else clickedItem)"

definition handleFundTypeSelect :: "jsval \<Rightarrow> app_state \<Rightarrow> app_state" where
  "handleFundTypeSelect fundType st = st\<lparr>selectedFundType := fundType, selectedSubFund := JNull\<rparr>"

definition handleSubFundSelect :: "jsval \<Rightarrow> app_state \<Rightarrow> app_state" where
  "handleSubFundSelect subFund st = st\<lparr>selectedSubFund := subFund\<rparr>"

text \<open>
  A click on the label \<open>x\<close> of the main chart (whose selected item is the selected fund
  type) and on the label \<open>y\<close> of the sub-fund chart (whose selected item is the selected
  sub-fund).
\<close>

definition selectFundType :: "jsval \<Rightarrow> app_state \<Rightarrow> app_state" where
  "selectFundType x st = handleFundTypeSelect (handleClick (selectedFundType st) x) st"

definition selectSubFund :: "jsval \<Rightarrow> app_state \<Rightarrow> app_state" where
  "selectSubFund y st = handleSubFundSelect (handleClick (selectedSubFund st) y) st"

text \<open>The derived data of a render.\<close>

definition totalAUM :: "app_state \<Rightarrow> jsval" where
  "totalAUM st = calculateTotalAUM (Some (fundData st))"

definition fundTypeData :: "app_state \<Rightarrow> error + jsobj list" where
  "fundTypeData st = aggregateByField (Some (fundData st)) ''FundType'' ''MV''"

definition subFundData :: "app_state \<Rightarrow> error + jsobj list" where
  "subFundData st =
     (if ToBoolean (selectedFundType st)
      then aggregateByField
             (Some (filter (\<lambda>item. strict_eq (get_prop item ''FundType'') (selectedFundType st))
                      (fundData st)))
             ''Fund'' ''MV''
      else Inr [])"

definition fundDetailsData :: "app_state \<Rightarrow> jsobj list" where
  "fundDetailsData st =
     (if ToBoolean (selectedSubFund st)
      then filter (\<lambda>item. strict_eq (get_prop item ''Fund'') (selectedSubFund st)) (fundData st)
      else [])"


text \<open>
  The states a session reaches from the loaded rows \<open>d\<close> with nothing selected, by
  clicks on labels of the two charts. The sub-fund chart is rendered only under
  \<open>selectedFundType &&\<close>, which implies the guard used here.
\<close>

inductive reachable :: "jsobj list \<Rightarrow> app_state \<Rightarrow> bool" for d :: "jsobj list" where
  loaded: "reachable d \<lparr>fundData = d, selectedFundType = JNull, selectedSubFund = JNull\<rparr>"
| fund_type_click: "reachable d st \<Longrightarrow> reachable d (selectFundType (JStr x) st)"
| sub_fund_click:
    "reachable d st \<Longrightarrow> selectedFundType st \<noteq> JNull \<Longrightarrow> reachable d (selectSubFund (JStr y) st)"

section \<open>Notions of the specification\<close>

text \<open>
  The distinct elements of a list in the order of their first occurrences, the
  contribution of a cell to an arithmetic sum (a finite number counts as itself,
  anything else as 0), and the cells that are finite numbers or falsy (\<open>undefined\<close>,
  \<open>null\<close>, \<open>false\<close>, NaN, the empty string).
\<close>

fun first_occurrences :: "'a list \<Rightarrow> 'a list" where
  "first_occurrences [] = []"
| "first_occurrences (x # xs) = x # first_occurrences (removeAll x xs)"

fun num_or_zero :: "jsval \<Rightarrow> rat" where
  "num_or_zero (JNum q) = q"
| "num_or_zero v = 0"

fun finite_or_falsy :: "jsval \<Rightarrow> bool" where
  "finite_or_falsy (JNum q) = True"
| "finite_or_falsy v = (\<not> ToBoolean v)"

text \<open>
  The records of the example scenario of the specification, and two records of
  different fund types whose funds have the same name.
\<close>

definition scenario_records :: "jsobj list" where
  "scenario_records =
     [[(''FundType'', JStr ''Equity''), (''Fund'', JStr ''A''), (''Asset'', JStr ''Stock1''),
       (''MV'', JNum 10), (''Equity'', JNum 8)],
      [(''FundType'', JStr ''Equity''), (''Fund'', JStr ''B''), (''Asset'', JStr ''Stock2''),
       (''MV'', JNum 5), (''Equity'', JNum 3)],
      [(''FundType'', JStr ''Fixed Income''), (''Fund'', JStr ''C''), (''Asset'', JStr ''Bond1''),
       (''MV'', JNum 20), (''Equity'', JNum 0)]]"

definition same_name_records :: "jsobj list" where
  "same_name_records =
     [[(''FundType'', JStr ''Equity''), (''Fund'', JStr ''Alpha''), (''Asset'', JStr ''Stock1''),
       (''MV'', JNum 10), (''Equity'', JNum 8)],
      [(''FundType'', JStr ''Fixed Income''), (''Fund'', JStr ''Alpha''), (''Asset'', JStr ''Bond1''),
       (''MV'', JNum 20), (''Equity'', JNum 0)]]"

text \<open>
  Further rows used as concrete inputs below: fund types named by years, a text cell in
  the \<open>MV\<close> column, blank cells among fractional values, a fund type named like a
  member of \<open>Object.prototype\<close>, keys of different types with the same string,
  market values whose sum needs more than 53 bits, and the mixed keys together with the
  inherited one.
\<close>

definition year_records :: "jsobj list" where
  "year_records =
     [[(''FundType'', JStr ''2024''), (''Fund'', JStr ''A''), (''Asset'', JStr ''Stock1''),
       (''MV'', JNum 5), (''Equity'', JNum 1)],
      [(''FundType'', JStr ''2023''), (''Fund'', JStr ''B''), (''Asset'', JStr ''Stock2''),
       (''MV'', JNum 7), (''Equity'', JNum 2)]]"

definition dirty_records :: "jsobj list" where
  "dirty_records =
     [[(''FundType'', JStr ''Equity''), (''Fund'', JStr ''A''), (''Asset'', JStr ''Stock1''),
       (''MV'', JStr ''n/a''), (''Equity'', JNum 8)]]"

definition sparse_records :: "jsobj list" where
  "sparse_records =
     [[(''FundType'', JStr ''Equity''), (''Fund'', JStr ''A''), (''MV'', JNum (25 / 2))],
      [(''FundType'', JStr ''Equity''), (''Fund'', JStr ''B'')],
      [(''FundType'', JStr ''Equity''), (''Fund'', JStr ''C''), (''MV'', JNull)],
      [(''FundType'', JStr ''Equity''), (''Fund'', JStr ''D''), (''MV'', JStr [])],
      [(''FundType'', JStr ''Equity''), (''Fund'', JStr ''E''), (''MV'', JNum (29 / 4))]]"

definition inherited_key_records :: "jsobj list" where
  "inherited_key_records =
     [[(''FundType'', JStr ''constructor''), (''Fund'', JStr ''A''), (''Asset'', JStr ''Stock1''),
       (''MV'', JNum 10), (''Equity'', JNum 8)]]"


definition rounding_records :: "jsobj list" where
  "rounding_records =
     [[(''FundType'', JStr ''Equity''), (''Fund'', JStr ''A''), (''Asset'', JStr ''Stock1''),
       (''MV'', JNum 9007199254740992), (''Equity'', JNum 0)],
      [(''FundType'', JStr ''Equity''), (''Fund'', JStr ''B''), (''Asset'', JStr ''Stock2''),
       (''MV'', JNum 1), (''Equity'', JNum 0)],
      [(''FundType'', JStr ''Equity''), (''Fund'', JStr ''B''), (''Asset'', JStr ''Stock3''),
       (''MV'', JNum 1), (''Equity'', JNum 0)]]"


section \<open>Properties of objects and of the grouping\<close>

text \<open>
  A property defined on an object is the one read back. \<open>Object.entries\<close> permutes
  the own properties, so the members of all groups are the same before and after it.
  When the grouping returns, every record of the input is a member of exactly one group
  (the members of the groups are the input, as multisets), the keys are created in the
  order of their first occurrences, a record is found under the string of its group
  value, and no key occurs twice. The grouping returns when no key names an inherited
  member.
\<close>

lemma map_of_set_prop: "map_of (set_prop ps k v) = (map_of ps)(k \<mapsto> v)"
  by (induction ps) auto

lemma get_prop_set_prop:
  "get_prop (set_prop obj k v) k' = (if k' = k then v else get_prop obj k')"
  by (simp add: get_prop_def map_of_set_prop)

lemma set_prop_present:
  "map_of ps k = Some v0 \<Longrightarrow> map fst (set_prop ps k v) = map fst ps"
  by (induction ps) (auto split: if_splits)

lemma set_prop_members:
  "map_of ps k = Some v0 \<Longrightarrow>
   mset (concat (map snd (set_prop ps k (v0 @ [x])))) = mset (concat (map snd ps)) + {#x#}"
  by (induction ps) (auto split: if_splits)

lemma mset_Object_entries: "mset (Object_entries obj) = mset obj"
proof -
  have "mset (Object_entries obj) =
        filter_mset (\<lambda>(k, v). array_index k \<noteq> None) (mset obj) +
        filter_mset (\<lambda>(k, v). array_index k = None) (mset obj)"
    by (simp add: Object_entries_def)
  also have "(\<lambda>(k, v). array_index k = None) = (\<lambda>e::string \<times> 'a. \<not> (\<lambda>(k, v). array_index k \<noteq> None) e)"
    by auto
  finally show ?thesis
    using multiset_partition [of "mset obj" "\<lambda>(k, v). array_index k \<noteq> None"] by simp
qed

lemma Object_entries_no_index:
  assumes "\<forall>k \<in> set (map fst obj). array_index k = None"
  shows "Object_entries obj = obj"
proof -
  have a: "filter (\<lambda>(k, v). array_index k \<noteq> None) obj = []"
    using assms by (auto simp: filter_empty_conv)
  have b: "filter (\<lambda>(k, v). array_index k = None) obj = obj"
    using assms by (auto simp: filter_id_conv)
  show ?thesis unfolding Object_entries_def a b by simp
qed

lemma members_Object_entries:
  "mset (concat (map snd (Object_entries obj))) = mset (concat (map snd obj))"
proof -
  have "mset (concat (map snd (Object_entries obj)))
        = sum_mset (image_mset (mset \<circ> snd) (mset (Object_entries obj)))"
    by (simp add: mset_concat flip: sum_mset_sum_list)
  also have "\<dots> = sum_mset (image_mset (mset \<circ> snd) (mset obj))"
    by (simp only: mset_Object_entries)
  also have "\<dots> = mset (concat (map snd obj))"
    by (simp add: mset_concat flip: sum_mset_sum_list)
  finally show ?thesis .
qed

lemma group_step_cases:
  assumes "group_step field groups item = Inr groups'"
  obtains (present) items where "map_of groups (ToString (get_prop item field)) = Some items"
      and "groups' = set_prop groups (ToString (get_prop item field)) (items @ [item])"
    | (new) "map_of groups (ToString (get_prop item field)) = None"
      and "ToString (get_prop item field) \<notin> set object_prototype_keys"
      and "groups' = groups @ [(ToString (get_prop item field), [item])]"
  using assms by (auto simp: group_step_def Let_def split: option.splits if_splits)

lemma group_step_members:
  assumes "group_step field groups item = Inr groups'"
  shows "mset (concat (map snd groups')) = mset (concat (map snd groups)) + {#item#}"
  using assms by (cases rule: group_step_cases) (simp_all add: set_prop_members)

lemma group_reduce_members:
  "group_reduce field groups items = Inr groups' \<Longrightarrow>
   mset (concat (map snd groups')) = mset (concat (map snd groups)) + mset items"
proof (induction items arbitrary: groups)
  case Nil
  then show ?case by simp
next
  case (Cons item rest)
  then obtain g1 where s: "group_step field groups item = Inr g1"
    and r: "group_reduce field g1 rest = Inr groups'"
    by (auto split: sum.splits)
  show ?case
    using Cons.IH [OF r] group_step_members [OF s] by simp
qed

lemma group_step_keys:
  assumes "group_step field groups item = Inr groups'"
  shows "map fst groups' =
         (if ToString (get_prop item field) \<in> set (map fst groups) then map fst groups
          else map fst groups @ [ToString (get_prop item field)])"
  using assms
proof (cases rule: group_step_cases)
  case (present items)
  then show ?thesis
    by (auto simp: set_prop_present dest: map_of_SomeD intro: rev_image_eqI)
next
  case new
  then show ?thesis
    by (auto simp: map_of_eq_None_iff)
qed

lemma group_reduce_keys:
  "group_reduce field groups items = Inr groups' \<Longrightarrow>
   map fst groups' =
     map fst groups @
     first_occurrences
       (filter (\<lambda>k. k \<notin> set (map fst groups)) (map (\<lambda>item. ToString (get_prop item field)) items))"
proof (induction items arbitrary: groups)
  case Nil
  then show ?case by simp
next
  case (Cons item rest)
  then obtain g1 where s: "group_step field groups item = Inr g1"
    and r: "group_reduce field g1 rest = Inr groups'"
    by (auto split: sum.splits)
  let ?k = "ToString (get_prop item field)"
  let ?ks = "map (\<lambda>item. ToString (get_prop item field)) rest"
  show ?case
  proof (cases "?k \<in> set (map fst groups)")
    case True
    then have "map fst g1 = map fst groups"
      using group_step_keys [OF s] by simp
    with Cons.IH [OF r] True show ?thesis by simp
  next
    case False
    then have k1: "map fst g1 = map fst groups @ [?k]"
      using group_step_keys [OF s] by simp
    have "filter (\<lambda>k. k \<notin> set (map fst g1)) ?ks
          = removeAll ?k (filter (\<lambda>x. x \<notin> set (map fst groups)) ?ks)"
      unfolding removeAll_filter_not_eq filter_filter
      by (rule filter_cong) (auto simp: k1)
    with Cons.IH [OF r] False k1 show ?thesis
      by simp
  qed
qed

lemma group_reduce_succeeds:
  "\<forall>item \<in> set items. ToString (get_prop item field) \<notin> set object_prototype_keys \<Longrightarrow>
   \<exists>groups'. group_reduce field groups items = Inr groups'"
proof (induction items arbitrary: groups)
  case Nil
  then show ?case by simp
next
  case (Cons item rest)
  have "\<exists>g1. group_step field groups item = Inr g1"
    using Cons.prems
    by (cases "map_of groups (ToString (get_prop item field))")
       (simp_all add: group_step_def Let_def)
  then obtain g1 where "group_step field groups item = Inr g1" ..
  with Cons show ?case by simp
qed




lemma first_occurrences_set: "set (first_occurrences xs) = set xs"
  by (induction xs rule: first_occurrences.induct) auto




section \<open>Properties of the sums and of the rows\<close>

text \<open>
  Over cells that are finite numbers or falsy the reductions are folds of the addition
  of numbers, and a fold whose partial sums are all doubles is the exact sum. When the
  sum of every subsequence of a list is a double, so is the sum of every list whose
  elements are among those of the list, counted with multiplicity. A row carries the
  count of its group under \<open>count\<close>, the sum under the value field unless that is
  \<open>count\<close>, and the key under the group field unless that is the value field or
  \<open>count\<close>. When no key names an inherited member, the counts of the rows sum to the
  number of records.
\<close>

lemma exact_fold:
  "\<forall>n \<le> length qs. is_double (a + sum_list (take n qs)) \<Longrightarrow>
   foldl number_add (Finite a) (map Finite qs) = Finite (a + sum_list qs)"
proof (induction qs arbitrary: a)
  case Nil
  then show ?case by simp
next
  case (Cons q qs)
  have "is_double (a + sum_list (take 1 (q # qs)))"
    using Cons.prems by (metis One_nat_def Suc_leI length_Cons zero_less_Suc)
  then have step: "number_add (Finite a) (Finite q) = Finite (a + q)"
    by (simp add: is_double_def)
  have "\<forall>n \<le> length qs. is_double (a + q + sum_list (take n qs))"
  proof (intro allI impI)
    fix n assume "n \<le> length qs"
    then have "is_double (a + sum_list (take (Suc n) (q # qs)))"
      using Cons.prems by (metis Suc_le_mono length_Cons)
    then show "is_double (a + q + sum_list (take n qs))"
      by (simp add: add.assoc)
  qed
  from Cons.IH [OF this] step show ?case by (simp add: add.assoc)
qed

lemma cell_add:
  "finite_or_falsy v \<Longrightarrow>
   js_add (JNumber acc) (js_or v (JNum 0)) = JNumber (number_add acc (Finite (num_or_zero v)))"
  by (cases v rule: finite_or_falsy.cases) (auto simp: js_or_def js_add_def)

lemma cells_fold:
  "\<forall>item \<in> set items. finite_or_falsy (get_prop item valueField) \<Longrightarrow>
   foldl (\<lambda>sum item. js_add sum (js_or (get_prop item valueField) (JNum 0))) (JNumber acc) items
     = JNumber (foldl number_add acc
                  (map (\<lambda>item. Finite (num_or_zero (get_prop item valueField))) items))"
  by (induction items arbitrary: acc) (simp_all add: cell_add)

lemma sum_items_float:
  "\<forall>item \<in> set items. finite_or_falsy (get_prop item valueField) \<Longrightarrow>
   sum_items valueField items
     = JNumber (foldl number_add (Finite 0)
                  (map (\<lambda>item. Finite (num_or_zero (get_prop item valueField))) items))"
  by (simp add: sum_items_def cells_fold)

lemma sum_items_exact:
  assumes "\<forall>item \<in> set items. finite_or_falsy (get_prop item valueField)"
    and "\<forall>n \<le> length items.
           is_double (\<Sum>item\<leftarrow>take n items. num_or_zero (get_prop item valueField))"
  shows "sum_items valueField items = JNum (\<Sum>item\<leftarrow>items. num_or_zero (get_prop item valueField))"
proof -
  let ?qs = "map (\<lambda>item. num_or_zero (get_prop item valueField)) items"
  have "\<forall>n \<le> length ?qs. is_double (0 + sum_list (take n ?qs))"
    using assms(2) by (simp add: take_map)
  from exact_fold [OF this] show ?thesis
    by (simp add: sum_items_float [OF assms(1)] comp_def)
qed

lemma calculateTotalAUM_sum_items: "calculateTotalAUM (Some xs) = sum_items ''MV'' xs"
  by (simp add: calculateTotalAUM_def sum_items_def)








lemma aggregate_row_count:
  "get_prop (aggregate_row groupField valueField e) ''count'' = JNum (of_nat (length (snd e)))"
  by (cases e) (simp add: aggregate_row_def get_prop_set_prop del: set_prop.simps)


lemma aggregate_row_key:
  "groupField \<noteq> valueField \<Longrightarrow> groupField \<noteq> ''count'' \<Longrightarrow>
   get_prop (aggregate_row groupField valueField e) groupField = JStr (fst e)"
  by (cases e) (simp add: aggregate_row_def get_prop_set_prop del: set_prop.simps)

lemma aggregateByField_rows:
  assumes "\<forall>item \<in> set data. ToString (get_prop item groupField) \<notin> set object_prototype_keys"
  obtains groups where "groupDataByField (Some data) groupField = Inr groups"
    and "aggregateByField (Some data) groupField valueField
           = Inr (map (aggregate_row groupField valueField) (Object_entries groups))"
    and "mset (concat (map snd groups)) = mset data"
    and "map fst groups = first_occurrences (map (\<lambda>item. ToString (get_prop item groupField)) data)"
proof (cases "data = []")
  case True
  show ?thesis
    by (rule that [of "[]"])
       (simp_all add: True groupDataByField_def aggregateByField_def Object_entries_def)
next
  case False
  obtain groups where g: "group_reduce groupField [] data = Inr groups"
    using group_reduce_succeeds [OF assms] by blast
  show ?thesis
  proof (rule that [of groups])
    show "groupDataByField (Some data) groupField = Inr groups"
      using False g by (simp add: groupDataByField_def)
    then show "aggregateByField (Some data) groupField valueField
           = Inr (map (aggregate_row groupField valueField) (Object_entries groups))"
      using False by (simp add: aggregateByField_def)
    show "mset (concat (map snd groups)) = mset data"
      using group_reduce_members [OF g] by simp
    show "map fst groups = first_occurrences (map (\<lambda>item. ToString (get_prop item groupField)) data)"
      using group_reduce_keys [OF g] by simp
  qed
qed

lemma sum_lengths:
  "(\<Sum>e\<leftarrow>es. of_nat (length (snd e))) = (of_nat (length (concat (map snd es))) :: rat)"
  by (induction es) simp_all

lemma count_sum_is_length:
  assumes "\<forall>item \<in> set data. ToString (get_prop item groupField) \<notin> set object_prototype_keys"
  shows "\<exists>rows. aggregateByField (Some data) groupField valueField = Inr rows \<and>
           (\<Sum>row\<leftarrow>rows. num_or_zero (get_prop row ''count'')) = of_nat (length data)"
proof -
  obtain groups where
    rows: "aggregateByField (Some data) groupField valueField
           = Inr (map (aggregate_row groupField valueField) (Object_entries groups))"
    and members: "mset (concat (map snd groups)) = mset data"
    using aggregateByField_rows [OF assms] by blast
  have "(\<Sum>row\<leftarrow>map (aggregate_row groupField valueField) (Object_entries groups).
           num_or_zero (get_prop row ''count''))
        = (\<Sum>e\<leftarrow>Object_entries groups. of_nat (length (snd e)))"
    by (simp add: comp_def aggregate_row_count)
  also have "\<dots> = of_nat (length (concat (map snd (Object_entries groups))))"
    by (rule sum_lengths)
  also have "\<dots> = of_nat (size (mset (concat (map snd (Object_entries groups)))))"
    by simp
  also have "\<dots> = of_nat (length data)"
    by (simp only: members_Object_entries members size_mset)
  finally show ?thesis using rows by simp
qed



lemma map_fst_insort_key:
  "map fst (insort_key (\<lambda>p. f (fst p)) x xs) = insort_key f (fst x) (map fst xs)"
  by (induction xs) auto

lemma map_fst_sort_key: "map fst (sort_key (\<lambda>p. f (fst p)) xs) = sort_key f (map fst xs)"
  by (induction xs) (simp_all add: map_fst_insort_key)

lemma keys_Object_entries:
  "map fst (Object_entries obj) =
     sort_key index_value (filter (\<lambda>k. array_index k \<noteq> None) (map fst obj))
     @ filter (\<lambda>k. array_index k = None) (map fst obj)"
  by (simp add: Object_entries_def map_fst_sort_key filter_map comp_def case_prod_unfold)

lemma keys_of_rows:
  assumes "groupField \<noteq> valueField" and "groupField \<noteq> ''count''"
  shows "map (\<lambda>row. get_prop row groupField) (map (aggregate_row groupField valueField) es)
         = map JStr (map fst es)"
  using assms by (simp add: aggregate_row_key)

section \<open>The selection and the derived data\<close>

lemma reachable_fundData: "reachable d st \<Longrightarrow> fundData st = d"
  by (induction rule: reachable.induct)
     (simp_all add: selectFundType_def selectSubFund_def handleFundTypeSelect_def
        handleSubFundSelect_def)

text \<open>
  C2, as the code has it. A click on the label that is already selected deselects it, so
  two clicks on \<open>x\<close> end with nothing selected when the fund type selected before them
  was not \<open>x\<close> (in particular from the state with nothing selected, which is then
  restored), and two clicks on \<open>y\<close> end with no sub-fund selected and the fund type
  unchanged when the sub-fund selected before them was not \<open>y\<close>.
\<close>

theorem toggle_twice:
  assumes "selectedFundType st \<noteq> JStr x" and "selectedSubFund st \<noteq> JStr y"
  shows "selectFundType (JStr x) (selectFundType (JStr x) st)
           = st\<lparr>selectedFundType := JNull, selectedSubFund := JNull\<rparr> \<and>
         selectSubFund (JStr y) (selectSubFund (JStr y) st) = st\<lparr>selectedSubFund := JNull\<rparr>"
  using assms
  by (simp add: selectFundType_def selectSubFund_def handleFundTypeSelect_def
        handleSubFundSelect_def handleClick_def strict_eq_def)

theorem toggle_twice_witness:
  "selectFundType (JStr ''Equity'')
     (selectFundType (JStr ''Equity'')
        \<lparr>fundData = scenario_records, selectedFundType = JNull, selectedSubFund = JNull\<rparr>)
     = \<lparr>fundData = scenario_records, selectedFundType = JNull, selectedSubFund = JNull\<rparr> \<and>
   selectSubFund (JStr ''A'')
     (selectSubFund (JStr ''A'')
        \<lparr>fundData = scenario_records, selectedFundType = JStr ''Equity'', selectedSubFund = JNull\<rparr>)
     = \<lparr>fundData = scenario_records, selectedFundType = JStr ''Equity'', selectedSubFund = JNull\<rparr>"
  using toggle_twice [of "\<lparr>fundData = scenario_records, selectedFundType = JNull, selectedSubFund = JNull\<rparr>" "''Equity''" "''A''"]
    toggle_twice [of "\<lparr>fundData = scenario_records, selectedFundType = JStr ''Equity'', selectedSubFund = JNull\<rparr>" "''Bond''" "''A''"]
  by simp

text \<open>
  C2 fails from a state in which the clicked label is the selected one. With fund type
  \<open>Equity\<close> and sub-fund \<open>A\<close> selected, the first click on \<open>Equity\<close> deselects
  everything and the second selects \<open>Equity\<close> again: the result is neither the state
  with nothing selected nor the starting state. From the same state the first click on
  \<open>A\<close> deselects the sub-fund and the second selects it again, so the sub-fund is not
  none.
\<close>

theorem toggle_twice_counterexample:
  "selectFundType (JStr ''Equity'')
     (selectFundType (JStr ''Equity'')
        \<lparr>fundData = scenario_records, selectedFundType = JStr ''Equity'',
           selectedSubFund = JStr ''A''\<rparr>)
     = \<lparr>fundData = scenario_records, selectedFundType = JStr ''Equity'',
          selectedSubFund = JNull\<rparr> \<and>
   selectSubFund (JStr ''A'')
     (selectSubFund (JStr ''A'')
        \<lparr>fundData = scenario_records, selectedFundType = JStr ''Equity'',
           selectedSubFund = JStr ''A''\<rparr>)
     = \<lparr>fundData = scenario_records, selectedFundType = JStr ''Equity'',
          selectedSubFund = JStr ''A''\<rparr>"
  by (simp add: selectFundType_def selectSubFund_def handleFundTypeSelect_def
        handleSubFundSelect_def handleClick_def strict_eq_def)

text \<open>
  C5. In every state reached from the state with nothing selected, a sub-fund is
  selected only while a fund type is selected, and any click on the main chart leaves no
  sub-fund selected.
\<close>

theorem hierarchical_consistency:
  assumes "reachable d st"
  shows "(selectedSubFund st \<noteq> JNull \<longrightarrow> selectedFundType st \<noteq> JNull) \<and>
         selectedSubFund (selectFundType (JStr x) st) = JNull"
proof
  show "selectedSubFund st \<noteq> JNull \<longrightarrow> selectedFundType st \<noteq> JNull"
    using assms
    by (induction rule: reachable.induct)
       (simp_all add: selectFundType_def selectSubFund_def handleFundTypeSelect_def
          handleSubFundSelect_def)
  show "selectedSubFund (selectFundType (JStr x) st) = JNull"
    by (simp add: selectFundType_def handleFundTypeSelect_def)
qed

theorem hierarchical_consistency_witness:
  "reachable scenario_records
     \<lparr>fundData = scenario_records, selectedFundType = JStr ''Equity'', selectedSubFund = JStr ''A''\<rparr> \<and>
   selectedSubFund (selectFundType (JStr ''Fixed Income'')
     \<lparr>fundData = scenario_records, selectedFundType = JStr ''Equity'', selectedSubFund = JStr ''A''\<rparr>)
     = JNull"
proof -
  let ?s0 = "\<lparr>fundData = scenario_records, selectedFundType = JNull, selectedSubFund = JNull\<rparr>"
  let ?s2 = "\<lparr>fundData = scenario_records, selectedFundType = JStr ''Equity'', selectedSubFund = JStr ''A''\<rparr>"
  have r1: "reachable scenario_records (selectFundType (JStr ''Equity'') ?s0)"
    by (rule fund_type_click [OF loaded])
  have "reachable scenario_records (selectSubFund (JStr ''A'') (selectFundType (JStr ''Equity'') ?s0))"
    by (rule sub_fund_click [OF r1])
       (simp add: selectFundType_def handleFundTypeSelect_def handleClick_def strict_eq_def)
  moreover have "selectSubFund (JStr ''A'') (selectFundType (JStr ''Equity'') ?s0) = ?s2"
    by (simp add: selectFundType_def selectSubFund_def handleFundTypeSelect_def
          handleSubFundSelect_def handleClick_def strict_eq_def)
  ultimately have r: "reachable scenario_records ?s2" by simp
  show ?thesis
    using r hierarchical_consistency [OF r, of "''Fixed Income''"] by simp
qed

text \<open>
  C4. The total of a render is computed from the loaded rows alone: in any two states
  reached from the same rows it has the same value, the total of all the rows.
\<close>

theorem total_ignores_selection:
  assumes "reachable d s1" and "reachable d s2"
  shows "totalAUM s1 = totalAUM s2 \<and> totalAUM s1 = calculateTotalAUM (Some d)"
  using assms by (simp add: totalAUM_def reachable_fundData)

theorem total_ignores_selection_witness:
  "totalAUM (selectFundType (JStr ''Equity'')
      \<lparr>fundData = scenario_records, selectedFundType = JNull, selectedSubFund = JNull\<rparr>)
     = totalAUM \<lparr>fundData = scenario_records, selectedFundType = JNull, selectedSubFund = JNull\<rparr> \<and>
   totalAUM (selectFundType (JStr ''Equity'')
      \<lparr>fundData = scenario_records, selectedFundType = JNull, selectedSubFund = JNull\<rparr>)
     = JNum 35"
proof -
  let ?s0 = "\<lparr>fundData = scenario_records, selectedFundType = JNull, selectedSubFund = JNull\<rparr>"
  have r0: "reachable scenario_records ?s0"
    by (rule loaded)
  have r1: "reachable scenario_records (selectFundType (JStr ''Equity'') ?s0)"
    by (rule fund_type_click [OF r0])
  have "calculateTotalAUM (Some scenario_records) = JNum 35"
    by code_simp
  with total_ignores_selection [OF r1 r0] show ?thesis by metis
qed

lemma strict_eq_JStr: "strict_eq a (JStr s) = (a = JStr s)"
  by (auto simp: strict_eq_def)

text \<open>
  C9. With a sub-fund of a non-empty name \<open>f\<close> selected, the detail rows are the rows
  whose \<open>Fund\<close> is \<open>f\<close>, whatever their fund type: when two rows of different fund
  types have the fund \<open>f\<close>, both are detail rows, and one of them has a fund type other
  than the selected one.
\<close>

theorem detail_rows_ignore_fund_type:
  assumes "r1 \<in> set (fundData st)" and "r2 \<in> set (fundData st)"
    and "get_prop r1 ''Fund'' = JStr f" and "get_prop r2 ''Fund'' = JStr f"
    and "get_prop r1 ''FundType'' \<noteq> get_prop r2 ''FundType''"
    and "selectedSubFund st = JStr f" and "f \<noteq> []"
  shows "fundDetailsData st = filter (\<lambda>item. get_prop item ''Fund'' = JStr f) (fundData st) \<and>
         r1 \<in> set (fundDetailsData st) \<and> r2 \<in> set (fundDetailsData st) \<and>
         (\<exists>r \<in> set (fundDetailsData st). get_prop r ''FundType'' \<noteq> selectedFundType st)"
proof -
  have eq: "fundDetailsData st = filter (\<lambda>item. get_prop item ''Fund'' = JStr f) (fundData st)"
    using assms(6,7) by (simp add: fundDetailsData_def strict_eq_JStr)
  have m1: "r1 \<in> set (fundDetailsData st)" and m2: "r2 \<in> set (fundDetailsData st)"
    using assms(1-4) by (simp_all add: eq)
  have "get_prop r1 ''FundType'' \<noteq> selectedFundType st \<or> get_prop r2 ''FundType'' \<noteq> selectedFundType st"
    using assms(5) by auto
  with m1 m2 have "\<exists>r \<in> set (fundDetailsData st). get_prop r ''FundType'' \<noteq> selectedFundType st"
    by blast
  with eq m1 m2 show ?thesis by blast
qed

theorem detail_rows_ignore_fund_type_witness:
  "fundDetailsData
     \<lparr>fundData = same_name_records, selectedFundType = JStr ''Equity'',
        selectedSubFund = JStr ''Alpha''\<rparr> = same_name_records \<and>
   get_prop (same_name_records ! 1) ''FundType'' = JStr ''Fixed Income''"
proof -
  let ?st = "\<lparr>fundData = same_name_records, selectedFundType = JStr ''Equity'',
        selectedSubFund = JStr ''Alpha''\<rparr>"
  have "fundDetailsData ?st = filter (\<lambda>item. get_prop item ''Fund'' = JStr ''Alpha'') (fundData ?st)"
    using detail_rows_ignore_fund_type [of "same_name_records ! 0" ?st "same_name_records ! 1" "''Alpha''"]
    by (simp add: same_name_records_def get_prop_def)
  then show ?thesis
    by (simp add: same_name_records_def get_prop_def)
qed

section \<open>Aggregation\<close>

text \<open>
  C1, as the code has it. Let no group key name an inherited member of
  \<open>Object.prototype\<close>, and let the group field differ from the value field and from
  \<open>count\<close>. Then the aggregation returns, and its rows list the group keys in the order
  of \<open>Object.entries\<close>: the keys that are array indices first, in ascending numeric
  order, then the other keys in the order of their first occurrences in the input. So
  when no key is an array index the rows are in first-occurrence order.
\<close>

theorem group_order:
  assumes "\<forall>item \<in> set data. ToString (get_prop item groupField) \<notin> set object_prototype_keys"
    and "groupField \<noteq> valueField" and "groupField \<noteq> ''count''"
  shows "\<exists>rows. aggregateByField (Some data) groupField valueField = Inr rows \<and>
           map (\<lambda>row. get_prop row groupField) rows
             = map JStr
                 (sort_key index_value
                    (filter (\<lambda>k. array_index k \<noteq> None)
                       (first_occurrences (map (\<lambda>item. ToString (get_prop item groupField)) data)))
                  @ filter (\<lambda>k. array_index k = None)
                      (first_occurrences (map (\<lambda>item. ToString (get_prop item groupField)) data))) \<and>
           ((\<forall>item \<in> set data. array_index (ToString (get_prop item groupField)) = None) \<longrightarrow>
            map (\<lambda>row. get_prop row groupField) rows
              = map JStr (first_occurrences (map (\<lambda>item. ToString (get_prop item groupField)) data)))"
proof -
  let ?K = "first_occurrences (map (\<lambda>item. ToString (get_prop item groupField)) data)"
  obtain groups where
    rows: "aggregateByField (Some data) groupField valueField
           = Inr (map (aggregate_row groupField valueField) (Object_entries groups))"
    and keys: "map fst groups = ?K"
    using aggregateByField_rows [OF assms(1)] by blast
  let ?rows = "map (aggregate_row groupField valueField) (Object_entries groups)"
  have general: "map (\<lambda>row. get_prop row groupField) ?rows
      = map JStr (sort_key index_value (filter (\<lambda>k. array_index k \<noteq> None) ?K)
                  @ filter (\<lambda>k. array_index k = None) ?K)"
    by (simp only: keys_of_rows [OF assms(2,3)] keys_Object_entries keys)
  have special: "map (\<lambda>row. get_prop row groupField) ?rows = map JStr ?K"
    if none: "\<forall>item \<in> set data. array_index (ToString (get_prop item groupField)) = None"
  proof -
    have "\<forall>k \<in> set ?K. array_index k = None"
      using none by (auto simp: first_occurrences_set)
    then have "filter (\<lambda>k. array_index k \<noteq> None) ?K = []" and "filter (\<lambda>k. array_index k = None) ?K = ?K"
      by (simp_all add: filter_empty_conv filter_id_conv)
    with general show ?thesis by (simp only: sort_key_simps append_Nil)
  qed
  from rows general special show ?thesis by blast
qed

theorem group_order_witness:
  "\<exists>rows. aggregateByField (Some scenario_records) ''FundType'' ''MV'' = Inr rows \<and>
     map (\<lambda>row. get_prop row ''FundType'') rows = [JStr ''Equity'', JStr ''Fixed Income'']"
proof -
  have a: "\<forall>item \<in> set scenario_records.
             ToString (get_prop item ''FundType'') \<notin> set object_prototype_keys"
    by code_simp
  have b: "\<forall>item \<in> set scenario_records. array_index (ToString (get_prop item ''FundType'')) = None"
    by code_simp
  have c: "first_occurrences (map (\<lambda>item. ToString (get_prop item ''FundType'')) scenario_records)
           = [''Equity'', ''Fixed Income'']"
    by code_simp
  have d: "''FundType'' \<noteq> ''MV''" "''FundType'' \<noteq> ''count''" by simp_all
  show ?thesis
    using group_order [OF a d] b unfolding c by auto
qed

text \<open>
  C1 fails for keys that are array indices: of the fund types \<open>2024\<close> and \<open>2023\<close>,
  occurring in this order, the row of \<open>2023\<close> comes first.
\<close>

theorem group_order_counterexample:
  "aggregateByField (Some year_records) ''FundType'' ''MV''
     = Inr [[(''FundType'', JStr ''2023''), (''MV'', JNum 7), (''count'', JNum 1)],
            [(''FundType'', JStr ''2024''), (''MV'', JNum 5), (''count'', JNum 1)]] \<and>
   first_occurrences (map (\<lambda>item. ToString (get_prop item ''FundType'')) year_records)
     = [''2024'', ''2023'']"
  by code_simp

text \<open>
  C3, as the code has it. When every value of the field is a finite number or falsy (a
  missing field reads as \<open>undefined\<close>), the reduction returns the floating-point sum
  of the values taken from left to right from 0, every addition rounded to the nearest
  double and every value that is not a number contributing 0. That is the arithmetic
  sum of the values whenever every partial sum, in the order of the sequence, is a
  double. The total is the reduction over \<open>MV\<close>. The reduction is a total function:
  it raises nothing.
\<close>

theorem sum_of_cells:
  assumes "\<forall>item \<in> set records. finite_or_falsy (get_prop item valueField)"
  shows "sum_items valueField records
           = JNumber (foldl number_add (Finite 0)
                        (map (\<lambda>item. Finite (num_or_zero (get_prop item valueField))) records)) \<and>
         ((\<forall>n \<le> length records.
             is_double (\<Sum>item\<leftarrow>take n records. num_or_zero (get_prop item valueField))) \<longrightarrow>
          sum_items valueField records
            = JNum (\<Sum>item\<leftarrow>records. num_or_zero (get_prop item valueField))) \<and>
         calculateTotalAUM (Some records) = sum_items ''MV'' records"
proof (intro conjI impI)
  show "sum_items valueField records
          = JNumber (foldl number_add (Finite 0)
                       (map (\<lambda>item. Finite (num_or_zero (get_prop item valueField))) records))"
    by (rule sum_items_float [OF assms])
  show "sum_items valueField records
          = JNum (\<Sum>item\<leftarrow>records. num_or_zero (get_prop item valueField))"
    if "\<forall>n \<le> length records.
          is_double (\<Sum>item\<leftarrow>take n records. num_or_zero (get_prop item valueField))"
    by (rule sum_items_exact [OF assms that])
  show "calculateTotalAUM (Some records) = sum_items ''MV'' records"
    by (rule calculateTotalAUM_sum_items)
qed

theorem sum_of_cells_witness:
  "sum_items ''MV'' sparse_records = JNum (79 / 4) \<and>
   calculateTotalAUM (Some sparse_records) = JNum (79 / 4)"
proof -
  have a: "\<forall>item \<in> set sparse_records. finite_or_falsy (get_prop item ''MV'')"
    by code_simp
  have b: "\<forall>n \<le> length sparse_records.
             is_double (\<Sum>item\<leftarrow>take n sparse_records. num_or_zero (get_prop item ''MV''))"
  proof (intro allI impI)
    fix n assume "n \<le> length sparse_records"
    then have "n \<in> {0, 1, 2, 3, 4, 5}"
      by (auto simp: sparse_records_def)
    moreover have "\<forall>n \<in> {0, 1, 2, 3, 4, 5 :: nat}.
        is_double (\<Sum>item\<leftarrow>take n sparse_records. num_or_zero (get_prop item ''MV''))"
      by code_simp
    ultimately show "is_double (\<Sum>item\<leftarrow>take n sparse_records. num_or_zero (get_prop item ''MV''))"
      by blast
  qed
  have c: "(\<Sum>item\<leftarrow>sparse_records. num_or_zero (get_prop item ''MV'')) = 79 / 4"
    by code_simp
  from sum_of_cells [OF a] b
  have s: "sum_items ''MV'' sparse_records
             = JNum (\<Sum>item\<leftarrow>sparse_records. num_or_zero (get_prop item ''MV''))"
    and t: "calculateTotalAUM (Some sparse_records) = sum_items ''MV'' sparse_records"
    by blast+
  show ?thesis unfolding t s c by simp
qed

text \<open>
  C3 fails for a non-numeric value that is truthy: a text cell \<open>n/a\<close> is not replaced
  by 0, and \<open>+\<close> concatenates, so the result is the string \<open>0n/a\<close> and not the
  number 0. It fails for numbers whose partial sums are not doubles: the market values
  \<open>2^53\<close>, 1 and 1 are summed to \<open>2^53\<close>, and their arithmetic sum is \<open>2^53 + 2\<close>.
\<close>

theorem sum_of_cells_counterexample:
  "sum_items ''MV'' dirty_records = JStr ''0n/a'' \<and>
   sum_items ''MV'' rounding_records = JNum 9007199254740992 \<and>
   (\<Sum>item\<leftarrow>rounding_records. num_or_zero (get_prop item ''MV'')) = 9007199254740994"
  by code_simp

text \<open>
  C6 requires that the counts of the rows sum to the number of records for every record
  sequence. For a record whose fund type is \<open>constructor\<close> the read \<open>groups[key]\<close>
  finds the inherited member, no array is created, and the push raises a TypeError: the
  grouping and the aggregation return no rows at all, and the record is not counted.
\<close>

theorem inherited_key_raises:
  "groupDataByField (Some inherited_key_records) ''FundType'' = Inl TypeError \<and>
   aggregateByField (Some inherited_key_records) ''FundType'' ''MV'' = Inl TypeError"
  by code_simp







section \<open>The example scenario of the specification\<close>

text \<open>
  The three records of the scenario give the two rows of the main chart and the total
  35; with \<open>Equity\<close> selected the sub-fund chart has the rows of \<open>A\<close> and \<open>B\<close>; with
  \<open>A\<close> selected the detail rows are the one record of \<open>A\<close>.
\<close>

lemma scenario_views:
  "fundTypeData \<lparr>fundData = scenario_records, selectedFundType = JNull, selectedSubFund = JNull\<rparr>
     = Inr [[(''FundType'', JStr ''Equity''), (''MV'', JNum 15), (''count'', JNum 2)],
            [(''FundType'', JStr ''Fixed Income''), (''MV'', JNum 20), (''count'', JNum 1)]]"
  "totalAUM \<lparr>fundData = scenario_records, selectedFundType = JNull, selectedSubFund = JNull\<rparr>
     = JNum 35"
  "subFundData (selectFundType (JStr ''Equity'')
      \<lparr>fundData = scenario_records, selectedFundType = JNull, selectedSubFund = JNull\<rparr>)
     = Inr [[(''Fund'', JStr ''A''), (''MV'', JNum 10), (''count'', JNum 1)],
            [(''Fund'', JStr ''B''), (''MV'', JNum 5), (''count'', JNum 1)]]"
  "fundDetailsData (selectSubFund (JStr ''A'') (selectFundType (JStr ''Equity'')
      \<lparr>fundData = scenario_records, selectedFundType = JNull, selectedSubFund = JNull\<rparr>))
     = [[(''FundType'', JStr ''Equity''), (''Fund'', JStr ''A''), (''Asset'', JStr ''Stock1''),
         (''MV'', JNum 10), (''Equity'', JNum 8)]]"
  by code_simp+

section \<open>Empty and absent input\<close>

text \<open>
  C8. On an empty array and on an absent argument the three functions return at once
  and raise nothing: the total is the number 0, the grouping is the empty object and
  the aggregation is the empty array.
\<close>

theorem empty_input_total:
  "calculateTotalAUM None = JNum 0 \<and> calculateTotalAUM (Some []) = JNum 0 \<and>
   sum_items valueField [] = JNum 0 \<and>
   groupDataByField None field = Inr [] \<and> groupDataByField (Some []) field = Inr [] \<and>
   aggregateByField None groupField valueField = Inr [] \<and>
   aggregateByField (Some []) groupField valueField = Inr []"
  by (simp add: calculateTotalAUM_def sum_items_def groupDataByField_def aggregateByField_def)


end
